theory Spec2Isabelle
  imports Complex_Main "HOL-Library.Sublist"
begin

section \<open>Errors\<close>

text \<open>
  The exceptions that the modelled parts of \<^verbatim>\<open>model_main.py\<close> can raise. A call into a
  collaborator that is not part of the file (the dataset classes, the networks, torch,
  tensorboardX) is a \<open>site\<close>; whether it raises is decided by the environment.
\<close>

datatype site =
    Mkdir string
  | DevSet
  | DevLoader
  | ModelCtor
  | LoadState
  | ProduceEval
  | TrainSet
  | TrainLoader
  | Writer
  | Logger
  | Epoch nat

datatype py_error =
    ZeroDivisionError
  | ValueError
  | KeyError
  | AssertionError string
  | NameError string
  | FileExistsError string
  | FileNotFoundError string
  | SystemExit int
  | External site

section \<open>Length fitting: \<^verbatim>\<open>pad\<close>\<close>

text \<open>
  \<^verbatim>\<open>x[:n]\<close> for a Python integer \<open>n\<close>: a negative bound counts from the end.
\<close>

definition slice_to :: "'a list \<Rightarrow> int \<Rightarrow> 'a list" where
  "slice_to x n = (if 0 \<le> n then take (nat n) x else take (length x - nat (- n)) x)"

text \<open>
  The repeat count reaches \<^verbatim>\<open>np.repeat\<close> as the quotient \<^verbatim>\<open>max_len / x_len\<close> plus one.
  The quotient of two machine-size integers is kept here as an exact rational; numpy
  converts the count to an integer by cutting off the fraction (so integer division and
  true division give the same count), and refuses a negative count.
\<close>

definition c_trunc :: "rat \<Rightarrow> int" where
  "c_trunc r = (if 0 \<le> r then \<lfloor>r\<rfloor> else \<lceil>r\<rceil>)"

definition np_repeat :: "'a list \<Rightarrow> rat \<Rightarrow> py_error + 'a list" where
  "np_repeat x repeats =
     (let count = c_trunc repeats
      in if count < 0 then Inl ValueError
         else Inr (concat (map (replicate (nat count)) x)))"

definition pad :: "'a list \<Rightarrow> int \<Rightarrow> py_error + 'a list" where
  "pad x max_len =
     (let x_len = int (length x)
      in if x_len \<ge> max_len then Inr (slice_to x max_len)
         else if x_len = 0 then Inl ZeroDivisionError
         else (let num_repeats = (of_int max_len / of_int x_len) + 1
               in case np_repeat x num_repeats of
                    Inl e \<Rightarrow> Inl e
                  | Inr x_repeat \<Rightarrow> Inr (slice_to x_repeat max_len)))"

section \<open>The run: command line, file system, and the script body\<close>

text \<open>
  The parsed command line (\<^verbatim>\<open>args\<close>). The learning rate enters the modelled part only
  through its rendering in the run tag, so the field \<open>lr_str\<close> holds that rendering.
\<close>

record args =
  eval :: bool
  model_name :: string
  model_path :: "string option"
  eval_output :: "string option"
  batch_size :: int
  num_epochs :: int
  lr_str :: string
  comment :: "string option"
  track :: string
  features :: string
  is_eval :: bool
  eval_part :: int

text \<open>
  What the script leaves behind: the paths that exist and the lines printed. The
  environment says whether CUDA is there and which calls into collaborators raise.
\<close>

datatype printed = Text string | Namespace args

record state =
  fs :: "string list"
  stdout :: "printed list"

record env =
  cuda :: bool
  raises :: "site \<Rightarrow> bool"

type_synonym 'a prog = "state \<Rightarrow> (py_error + 'a) \<times> state"

definition ret :: "'a \<Rightarrow> 'a prog" where
  "ret v s = (Inr v, s)"

definition raise :: "py_error \<Rightarrow> 'a prog" where
  "raise e s = (Inl e, s)"

definition and_then :: "'a prog \<Rightarrow> ('a \<Rightarrow> 'b prog) \<Rightarrow> 'b prog" where
  "and_then m f s = (case m s of (Inl e, s') \<Rightarrow> (Inl e, s') | (Inr v, s') \<Rightarrow> f v s')"

definition try_except :: "unit prog \<Rightarrow> unit prog \<Rightarrow> unit prog" where
  \<comment> \<open>a bare \<^verbatim>\<open>except:\<close> catches every exception\<close>
  "try_except body handler s =
     (case body s of (Inl e, s') \<Rightarrow> handler s' | (Inr v, s') \<Rightarrow> (Inr v, s'))"

definition external :: "env \<Rightarrow> site \<Rightarrow> unit prog" where
  "external en c = (if raises en c then raise (External c) else ret ())"

definition py_assert :: "bool \<Rightarrow> string \<Rightarrow> unit prog" where
  "py_assert b msg = (if b then ret () else raise (AssertionError msg))"

definition print :: "printed \<Rightarrow> unit prog" where
  "print x s = (Inr (), s\<lparr>stdout := stdout s @ [x]\<rparr>)"

definition create :: "string \<Rightarrow> unit prog" where
  "create p s = (Inr (), if p \<in> set (fs s) then s else s\<lparr>fs := fs s @ [p]\<rparr>)"

definition os_path_exists :: "string \<Rightarrow> state \<Rightarrow> bool" where
  "os_path_exists p s = (p \<in> set (fs s))"

definition os_mkdir :: "env \<Rightarrow> string \<Rightarrow> unit prog" where
  "os_mkdir en p s =
     (if os_path_exists p s then raise (FileExistsError p) s
      else and_then (external en (Mkdir p)) (\<lambda>_. create p) s)"

definition under :: "string \<Rightarrow> string \<Rightarrow> bool" where
  "under p q = (q = p \<or> prefix (p @ ''/'') q)"

definition shutil_rmtree :: "string \<Rightarrow> unit prog" where
  "shutil_rmtree p s =
     (if os_path_exists p s then (Inr (), s\<lparr>fs := filter (\<lambda>q. \<not> under p q) (fs s)\<rparr>)
      else raise (FileNotFoundError p) s)"

subsection \<open>The run tag\<close>

definition digit :: "nat \<Rightarrow> char" where
  "digit d = char_of (48 + d)"

fun str_nat :: "nat \<Rightarrow> string" where
  "str_nat n = (if n < 10 then [digit n] else str_nat (n div 10) @ [digit (n mod 10)])"

declare str_nat.simps [simp del]

definition str_int :: "int \<Rightarrow> string" where
  "str_int i = (if i < 0 then ''-'' @ str_nat (nat (- i)) else str_nat (nat i))"

definition model_tag :: "args \<Rightarrow> string" where
  "model_tag a =
     (let tag = ''model_'' @ track a @ ''_'' @ features a @ ''_'' @ model_name a @ ''_'' @
                str_int (num_epochs a) @ ''_'' @ str_int (batch_size a) @ ''_'' @ lr_str a
      in case comment a of
           None \<Rightarrow> tag
         | Some c \<Rightarrow> if c = [] then tag else tag @ ''_'' @ c)"

definition model_save_path :: "args \<Rightarrow> string" where
  "model_save_path a = ''models/'' @ model_tag a"

definition log_path :: "args \<Rightarrow> string" where
  "log_path a = ''logs/'' @ model_tag a"

subsection \<open>Model selection\<close>

datatype model_cls =
  MFCCModel | SpectrogramModel | CQCCModel | resnet18 | mobilenet_v2 | se_resnet50 | se_resnet20

text \<open>
  The \<^verbatim>\<open>if\<close>/\<^verbatim>\<open>elif\<close> chain has no \<^verbatim>\<open>else\<close>: for any other name the variable
  \<^verbatim>\<open>model_cls\<close> stays unbound (\<open>None\<close>).
\<close>

definition select_model_cls :: "string \<Rightarrow> model_cls option" where
  "select_model_cls name =
     (if name = ''mfcc'' then Some MFCCModel
      else if name = ''spect'' then Some SpectrogramModel
      else if name = ''cqcc'' then Some CQCCModel
      else if name = ''resnet18'' then Some resnet18
      else if name = ''mobilenet_v2'' then Some mobilenet_v2
      else if name = ''senet50'' then Some se_resnet50
      else if name = ''senet20'' then Some se_resnet20
      else None)"

subsection \<open>The script body\<close>

text \<open>Lines 206 to 221: the checks of the features and the track, and the directories.\<close>

definition supported_features :: "string list" where
  "supported_features = [''mfcc'', ''spect'', ''cqcc'']"

definition tracks :: "string list" where
  "tracks = [''logical'', ''physical'']"

definition prepare :: "args \<Rightarrow> env \<Rightarrow> unit prog" where
  "prepare a en =
     and_then (\<lambda>s. if os_path_exists ''models'' s then ret () s else os_mkdir en ''models'' s) (\<lambda>_.
     and_then (py_assert (features a \<in> set supported_features) ''Not supported feature'') (\<lambda>_.
     and_then (py_assert (track a \<in> set tracks) ''Invalid track given'') (\<lambda>_.
     (\<lambda>s. if os_path_exists (model_save_path a) s then ret () s
          else os_mkdir en (model_save_path a) s))))"

text \<open>Lines 230 to 264: the validation set, the network and the optional checkpoint.\<close>

definition build :: "args \<Rightarrow> env \<Rightarrow> unit prog" where
  "build a en =
     and_then (print (Text (if cuda en then ''cuda'' else ''cpu''))) (\<lambda>_.
     and_then (external en DevSet) (\<lambda>_.
     and_then (external en DevLoader) (\<lambda>_.
     and_then (case select_model_cls (model_name a) of
                 None \<Rightarrow> raise (NameError ''model_cls'')
               | Some cls \<Rightarrow> external en ModelCtor) (\<lambda>_.
     and_then (print (Namespace a)) (\<lambda>_.
     (case model_path a of
        None \<Rightarrow> ret ()
      | Some p \<Rightarrow>
          if p = [] then ret ()
          else and_then (external en LoadState) (\<lambda>_. print (Text (''Model loaded : '' @ p)))))))))"

text \<open>Lines 266 to 270: the evaluation-only branch, which ends in \<^verbatim>\<open>sys.exit(0)\<close>.\<close>

definition eval_mode :: "args \<Rightarrow> env \<Rightarrow> unit prog" where
  "eval_mode a en =
     (if eval a then
        and_then (py_assert (eval_output a \<noteq> None) ''You must provide an output path'') (\<lambda>_.
        and_then (py_assert (model_path a \<noteq> None) ''You must provide model checkpoint'') (\<lambda>_.
        and_then (external en ProduceEval) (\<lambda>_.
        and_then (case eval_output a of
                    None \<Rightarrow> ret ()
                  | Some out \<Rightarrow> and_then (create out) (\<lambda>_. print (Text (''Result saved to '' @ out)))) (\<lambda>_.
        raise (SystemExit 0)))))
      else ret ())"

text \<open>
  Lines 272 to 284: the training set, the summary writer (which creates its log
  directory) and the logger, whose file handler opens \<^verbatim>\<open>logger.log\<close> in that directory.
\<close>

definition get_logger :: "env \<Rightarrow> string \<Rightarrow> unit prog" where
  "get_logger en dir s =
     (if os_path_exists dir s
      then and_then (external en Logger) (\<lambda>_. create (dir @ ''/logger.log'')) s
      else raise (FileNotFoundError (dir @ ''/logger.log'')) s)"

definition train_setup :: "args \<Rightarrow> env \<Rightarrow> unit prog" where
  "train_setup a en =
     and_then (external en TrainSet) (\<lambda>_.
     and_then (external en TrainLoader) (\<lambda>_.
     and_then (external en Writer) (\<lambda>_.
     and_then (create ''logs'') (\<lambda>_.
     and_then (create (log_path a)) (\<lambda>_.
     get_logger en (log_path a))))))"

text \<open>
  Lines 285 to 304: one epoch trains, validates, logs and saves a checkpoint; whatever
  it raises is caught by the bare \<^verbatim>\<open>except\<close>, after which the script has no further
  statement.
\<close>

definition epoch_body :: "args \<Rightarrow> env \<Rightarrow> nat \<Rightarrow> unit prog" where
  "epoch_body a en epoch =
     and_then (external en (Epoch epoch)) (\<lambda>_.
     create (model_save_path a @ ''/epoch_'' @ str_nat epoch @ ''.pth''))"

fun epochs :: "args \<Rightarrow> env \<Rightarrow> nat list \<Rightarrow> unit prog" where
  "epochs a en [] = ret ()"
| "epochs a en (epoch # rest) = and_then (epoch_body a en epoch) (\<lambda>_. epochs a en rest)"

definition cleanup :: "args \<Rightarrow> unit prog" where
  "cleanup a =
     and_then (print (Text ''Error and Exit'')) (\<lambda>_.
     and_then (shutil_rmtree (log_path a)) (\<lambda>_.
     shutil_rmtree (model_save_path a)))"

definition training :: "args \<Rightarrow> env \<Rightarrow> unit prog" where
  "training a en = try_except (epochs a en [0 ..< nat (num_epochs a)]) (cleanup a)"

definition before_training :: "args \<Rightarrow> env \<Rightarrow> unit prog" where
  "before_training a en =
     and_then (prepare a en) (\<lambda>_.
     and_then (build a en) (\<lambda>_.
     and_then (eval_mode a en) (\<lambda>_.
     train_setup a en)))"

definition main :: "args \<Rightarrow> env \<Rightarrow> unit prog" where
  "main a en = and_then (before_training a en) (\<lambda>_. training a en)"

text \<open>
  The status the process ends with: 0 when the script runs to its end, the argument of
  \<^verbatim>\<open>sys.exit\<close>, and 1 when an exception reaches the top level.
\<close>

definition exit_status :: "py_error + unit \<Rightarrow> int" where
  "exit_status r = (case r of Inr _ \<Rightarrow> 0 | Inl (SystemExit n) \<Rightarrow> n | Inl _ \<Rightarrow> 1)"

section \<open>The score file: \<^verbatim>\<open>produce_evaluation_file\<close>\<close>

text \<open>
  A sample of the dataset is the triple the loader yields: the feature tensor, the label
  and the metadata tuple, of which positions 1, 3 and 4 are read (file name, index of
  the system id, key). The dataset also carries the table from system-id indices to
  names and the flag of a blind evaluation set (\<^verbatim>\<open>dataset.is_eval\<close>).
\<close>

record meta =
  meta0 :: string
  file_name :: string
  meta2 :: string
  sys_id :: int
  key :: int

type_synonym 'x sample = "'x \<times> int \<times> meta"

record 'x dataset =
  samples :: "'x sample list"
  sysid_dict_inv :: "int \<rightharpoonup> string"
  dataset_is_eval :: bool

text \<open>
  \<^verbatim>\<open>DataLoader(dataset, batch_size=n, shuffle=False)\<close>: consecutive batches of \<open>n\<close>
  samples in dataset order, the last one possibly shorter. A batch size of 0 is refused
  by the loader itself; the model yields no batch for it.
\<close>

function DataLoader :: "nat \<Rightarrow> 'a list \<Rightarrow> 'a list list" where
  "DataLoader n xs = (if n = 0 \<or> xs = [] then [] else take n xs # DataLoader n (drop n xs))"
  by pat_completeness auto
termination
  by (relation "measure (\<lambda>(n, xs). length xs)") auto

declare DataLoader.simps [simp del]

text \<open>
  The four lists the loop extends. (The counters \<^verbatim>\<open>num_total\<close>, \<^verbatim>\<open>num_correct\<close> and the
  list \<^verbatim>\<open>true_y\<close> are never read and are left out.) The network maps a batch to one row
  of two logits per sample; the type of the logits is left open, only their difference
  is used.
\<close>

record 's lists =
  fname_list :: "string list"
  key_list :: "string list"
  sys_id_list :: "string list"
  score_list :: "'s list"

definition score_batch ::
  "'x dataset \<Rightarrow> ('x list \<Rightarrow> ('s::minus \<times> 's) list) \<Rightarrow> 's lists \<Rightarrow> 'x sample list \<Rightarrow> py_error + 's lists" where
  "score_batch ds model acc batch =
     (let batch_x = map fst batch;
          batch_meta = map (\<lambda>b. snd (snd b)) batch;
          batch_out = model batch_x;
          batch_score = map (\<lambda>(out0, out1). out1 - out0) batch_out
      in case those (map (\<lambda>m. sysid_dict_inv ds (sys_id m)) batch_meta) of
           None \<Rightarrow> Inl KeyError
         | Some ids \<Rightarrow>
             Inr (acc\<lparr>fname_list := fname_list acc @ map file_name batch_meta,
                      key_list := key_list acc @
                        map (\<lambda>m. if key m = 1 then ''bonafide'' else ''spoof'') batch_meta,
                      sys_id_list := sys_id_list acc @ ids,
                      score_list := score_list acc @ batch_score\<rparr>))"

fun score_batches ::
  "'x dataset \<Rightarrow> ('x list \<Rightarrow> ('s::minus \<times> 's) list) \<Rightarrow> 's lists \<Rightarrow> 'x sample list list \<Rightarrow> py_error + 's lists" where
  "score_batches ds model acc [] = Inr acc"
| "score_batches ds model acc (batch # rest) =
     (case score_batch ds model acc batch of
        Inl e \<Rightarrow> Inl e
      | Inr acc' \<Rightarrow> score_batches ds model acc' rest)"

text \<open>
  One line of the file; \<open>fmt\<close> is the rendering of a score by \<^verbatim>\<open>'{}'.format\<close>.
\<close>

definition write_line :: "('s \<Rightarrow> string) \<Rightarrow> bool \<Rightarrow> string \<times> string \<times> string \<times> 's \<Rightarrow> string" where
  "write_line fmt blind row =
     (case row of (f, s, k, cm) \<Rightarrow>
        if \<not> blind then f @ '' '' @ s @ '' '' @ k @ '' '' @ fmt cm @ [CHR 0x0A]
        else f @ '' '' @ fmt cm @ [CHR 0x0A])"

definition produce_evaluation_file ::
  "('s \<Rightarrow> string) \<Rightarrow> 'x dataset \<Rightarrow> ('x list \<Rightarrow> ('s::minus \<times> 's) list) \<Rightarrow> py_error + string list" where
  "produce_evaluation_file fmt ds model =
     (case score_batches ds model
             \<lparr>fname_list = [], key_list = [], sys_id_list = [], score_list = []\<rparr>
             (DataLoader 32 (samples ds)) of
        Inl e \<Rightarrow> Inl e
      | Inr acc \<Rightarrow>
          Inr (map (write_line fmt (dataset_is_eval ds))
                 (zip (fname_list acc) (zip (sys_id_list acc) (zip (key_list acc) (score_list acc))))))"

section \<open>The MFCC features: \<^verbatim>\<open>compute_mfcc_feats\<close>\<close>

text \<open>
  A feature map is the list of its rows. The two librosa functions are parameters: what
  they compute is not part of the file, only how their results are put together.
\<close>

type_synonym 'r matrix = "'r list list"

record ('w, 'r) librosa =
  feature_mfcc :: "'w \<Rightarrow> nat \<Rightarrow> nat \<Rightarrow> py_error + 'r matrix"
  feature_delta :: "'r matrix \<Rightarrow> py_error + 'r matrix"

definition ncols :: "'r matrix \<Rightarrow> nat" where
  "ncols m = (case m of [] \<Rightarrow> 0 | r # _ \<Rightarrow> length r)"

text \<open>\<^verbatim>\<open>np.concatenate(..., axis=0)\<close> stacks the rows and refuses differing row lengths.\<close>

definition np_concatenate :: "'r matrix list \<Rightarrow> py_error + 'r matrix" where
  "np_concatenate ms =
     (case ms of
        [] \<Rightarrow> Inl ValueError
      | m # rest \<Rightarrow> if list_all (\<lambda>m'. ncols m' = ncols m) rest then Inr (concat ms) else Inl ValueError)"

definition compute_mfcc_feats :: "('w, 'r) librosa \<Rightarrow> 'w \<Rightarrow> py_error + 'r matrix" where
  "compute_mfcc_feats lib x =
     (case feature_mfcc lib x 16000 24 of
        Inl e \<Rightarrow> Inl e
      | Inr mfcc \<Rightarrow>
          (case feature_delta lib mfcc of
             Inl e \<Rightarrow> Inl e
           | Inr delta \<Rightarrow>
               (case feature_delta lib delta of
                  Inl e \<Rightarrow> Inl e
                | Inr delta2 \<Rightarrow> np_concatenate [mfcc, delta, delta2])))"

section \<open>One epoch of training: \<^verbatim>\<open>train_epoch\<close>\<close>

text \<open>
  The torch operations the function composes are parameters: the constructor of the
  optimizer (from the parameters of the network and the learning rate), the forward pass
  of the network in training mode (one row of two outputs per sample), the log-softmax,
  the loss constructed from a weight vector, and the update
  \<^verbatim>\<open>zero_grad(); backward(); step()\<close>, which sees the loss as a function of the
  parameters. Floating-point numbers are idealised as reals.
\<close>

record ('p, 'o, 'x) torch =
  Adam :: "'p \<Rightarrow> real \<Rightarrow> 'o"
  forward :: "'p \<Rightarrow> 'x list \<Rightarrow> (real \<times> real) list"
  LogSoftmax :: "(real \<times> real) list \<Rightarrow> (real \<times> real) list"
  NLLLoss :: "real list \<Rightarrow> (real \<times> real) list \<Rightarrow> int list \<Rightarrow> real"
  backward_step :: "'o \<Rightarrow> 'p \<Rightarrow> ('p \<Rightarrow> real) \<Rightarrow> 'o \<times> 'p"

record ('p, 'o) train_state =
  running_loss :: real
  num_correct :: real
  num_total :: real
  ii :: nat
  params :: 'p
  optim :: 'o

text \<open>\<^verbatim>\<open>max(dim=1)\<close> over a row of two: the index of the first maximal entry.\<close>

definition row_argmax :: "real \<times> real \<Rightarrow> int" where
  "row_argmax row = (case row of (out0, out1) \<Rightarrow> if out0 < out1 then 1 else 0)"

definition count_equal :: "int list \<Rightarrow> int list \<Rightarrow> nat" where
  "count_equal pred y = length (filter (\<lambda>(p, t). p = t) (zip pred y))"

text \<open>
  The body of the loop over the batches. (The progress line written to the logger
  depends on wall-clock time and does not enter the result; it is left out.)
\<close>

definition train_batch ::
  "('p, 'o, 'x) torch \<Rightarrow> ('p, 'o) train_state \<Rightarrow> 'x sample list \<Rightarrow> ('p, 'o) train_state" where
  "train_batch T st batch =
     (let weight = [1.0, 9.0];
          criterion = NLLLoss T weight;
          batch_size = real (length batch);
          batch_x = map fst batch;
          batch_y = map (\<lambda>b. fst (snd b)) batch;
          batch_out = LogSoftmax T (forward T (params st) batch_x);
          batch_loss = criterion batch_out batch_y;
          batch_pred = map row_argmax batch_out;
          updated = backward_step T (optim st) (params st)
                      (\<lambda>q. criterion (LogSoftmax T (forward T q batch_x)) batch_y)
      in st\<lparr>num_total := num_total st + batch_size,
             ii := ii st + 1,
             num_correct := num_correct st + real (count_equal batch_pred batch_y),
             running_loss := running_loss st + batch_loss * batch_size,
             optim := fst updated,
             params := snd updated\<rparr>)"

text \<open>
  The function takes the batches the loader yields, the parameters of the network and
  the learning rate; it returns the pair of the source together with the parameters it
  leaves in the network. The final division fails when no sample was seen.
\<close>

definition train_epoch ::
  "('p, 'o, 'x) torch \<Rightarrow> 'x sample list list \<Rightarrow> 'p \<Rightarrow> real \<Rightarrow> py_error + (real \<times> real) \<times> 'p" where
  "train_epoch T data_loader model lr =
     (let st0 = \<lparr>running_loss = 0, num_correct = 0, num_total = 0, ii = 0,
                  params = model, optim = Adam T model lr\<rparr>;
          st = foldl (train_batch T) st0 data_loader
      in if num_total st = 0 then Inl ZeroDivisionError
         else Inr ((running_loss st / num_total st, num_correct st / num_total st), params st))"

subsection \<open>Auxiliary notions and sample inputs\<close>

text \<open>The names the model selection tests for.\<close>

definition model_names :: "string list" where
  "model_names = [''mfcc'', ''spect'', ''cqcc'', ''resnet18'', ''mobilenet_v2'', ''senet50'', ''senet20'']"

text \<open>A step that never removes a path.\<close>

definition grows :: "'a prog \<Rightarrow> bool" where
  "grows m = (\<forall>s r s'. m s = (r, s') \<longrightarrow> set (fs s) \<subseteq> set (fs s'))"

text \<open>
  The defaults of the argument parser, an environment in which no collaborator raises,
  one in which exactly the given epoch raises, and an empty working directory.
\<close>

definition default_args :: args where
  "default_args =
     \<lparr>eval = False, model_name = ''resnet18'', model_path = None, eval_output = None,
      batch_size = 30, num_epochs = 100, lr_str = ''0.0001'', comment = None,
      track = ''physical'', features = ''spect'', is_eval = False, eval_part = 0\<rparr>"

definition quiet_env :: env where
  "quiet_env = \<lparr>cuda = False, raises = (\<lambda>c. False)\<rparr>"

definition failing_epoch_env :: "nat \<Rightarrow> env" where
  "failing_epoch_env k = \<lparr>cuda = False, raises = (\<lambda>c. c = Epoch k)\<rparr>"

definition fresh :: state where
  "fresh = \<lparr>fs = [], stdout = []\<rparr>"

text \<open>The rows of logits the network returns over the whole dataset, in dataset order.\<close>

definition logits :: "'x dataset \<Rightarrow> ('x list \<Rightarrow> ('s \<times> 's) list) \<Rightarrow> ('s \<times> 's) list" where
  "logits ds model = concat (map (\<lambda>batch. model (map fst batch)) (DataLoader 32 (samples ds)))"

text \<open>
  A labelled dataset of two samples, and stand-ins for the two librosa functions that
  return maps of the right shape.
\<close>

definition two_samples :: "int dataset" where
  "two_samples =
     \<lparr>samples =
        [(3, 1, \<lparr>meta0 = ''LA_0079'', file_name = ''LA_T_1'', meta2 = ''a.flac'', sys_id = 0, key = 1\<rparr>),
         (5, 0, \<lparr>meta0 = ''LA_0080'', file_name = ''LA_T_2'', meta2 = ''b.flac'', sys_id = 1, key = 0\<rparr>)],
      sysid_dict_inv = [0 \<mapsto> ''-'', 1 \<mapsto> ''SS_1''],
      dataset_is_eval = False\<rparr>"

definition toy_librosa :: "(int list, int) librosa" where
  "toy_librosa =
     \<lparr>feature_mfcc = (\<lambda>y sr n_mfcc. Inr (map (\<lambda>c. map (\<lambda>v. int c * v) y) [0 ..< n_mfcc])),
      feature_delta = (\<lambda>m. Inr (map (map (\<lambda>v. v + 1)) m))\<rparr>"

text \<open>The parameters in effect at each batch, starting from the given optimizer state.\<close>

fun params_seq :: "('p, 'o, 'x) torch \<Rightarrow> 'p \<Rightarrow> 'o \<Rightarrow> 'x sample list list \<Rightarrow> 'p list" where
  "params_seq T p opt [] = []"
| "params_seq T p opt (batch # rest) =
     p # (let updated = backward_step T opt p
                (\<lambda>q. NLLLoss T [1.0, 9.0] (LogSoftmax T (forward T q (map fst batch)))
                       (map (\<lambda>b. fst (snd b)) batch))
          in params_seq T (snd updated) (fst updated) rest)"

text \<open>Stand-ins for the torch operations with simple arithmetic, and an empty metadata tuple.\<close>

definition toy_torch :: "(real, unit, real) torch" where
  "toy_torch =
     \<lparr>Adam = (\<lambda>p lr. ()),
      forward = (\<lambda>p xs. map (\<lambda>x. (- x, p + x)) xs),
      LogSoftmax = (\<lambda>rows. rows),
      NLLLoss = (\<lambda>w rows ys. sum_list (map2 (\<lambda>(out0, out1) y. if y = 1 then w ! 1 * out1 else w ! 0 * out0) rows ys)),
      backward_step = (\<lambda>opt p f. (opt, p + 1))\<rparr>"

definition no_meta :: meta where
  "no_meta = \<lparr>meta0 = [], file_name = [], meta2 = [], sys_id = 0, key = 0\<rparr>"

text \<open>
  The length fitting as the specification words it, for comparison with \<open>pad\<close>: the
  repeat factor is the quotient rounded up, plus one.
\<close>

definition pad_as_specified :: "'a list \<Rightarrow> int \<Rightarrow> 'a list" where
  "pad_as_specified x target_length =
     take (nat target_length)
       (concat (map (replicate (nat (\<lceil>(of_int target_length / of_int (int (length x)) :: rat)\<rceil> + 1))) x))"

section \<open>Properties of \<^verbatim>\<open>pad\<close>\<close>

lemma c_trunc_quotient:
  assumes "0 < L" "0 \<le> T"
  shows "c_trunc (of_int T / of_int (int L) + 1) = T div int L + 1"
proof -
  have "(0::rat) \<le> of_int T / of_int (int L) + 1"
    using assms by simp
  moreover have "\<lfloor>(of_int T / of_int (int L) + 1 :: rat)\<rfloor> = T div int L + 1"
    using floor_divide_of_int_eq [of T "int L", where ?'a = rat] by (simp del: of_int_of_nat_eq)
  ultimately show ?thesis
    by (simp add: c_trunc_def del: of_int_of_nat_eq)
qed

lemma length_repeat: "length (concat (map (replicate k) x)) = k * length x"
  by (induction x) simp_all

lemma set_repeat: "set (concat (map (replicate k) x)) \<subseteq> set x"
  by (induction x) auto

lemma nth_repeat: "i < k * length x \<Longrightarrow> concat (map (replicate k) x) ! i = x ! (i div k)"
proof (induction x arbitrary: i)
  case Nil
  then show ?case by simp
next
  case (Cons a x)
  have kpos: "0 < k" using Cons.prems by (cases k) simp_all
  show ?case
  proof (cases "i < k")
    case True
    then show ?thesis by (simp add: nth_append)
  next
    case False
    then have "i - k < k * length x" using Cons.prems by simp
    then have "concat (map (replicate k) x) ! (i - k) = x ! ((i - k) div k)"
      by (rule Cons.IH)
    moreover have "i div k = Suc ((i - k) div k)"
      using False kpos by (simp add: le_div_geq)
    ultimately show ?thesis using False by (simp add: nth_append)
  qed
qed

lemma pad_short:
  assumes "0 < length x" "int (length x) < T"
  shows "pad x T = Inr (take (nat T) (concat (map (replicate (nat (T div int (length x) + 1))) x)))"
proof -
  have T0: "0 \<le> T" using assms by linarith
  have "0 \<le> T div int (length x)" using T0 assms(1) by (simp add: pos_imp_zdiv_nonneg_iff)
  then have "\<not> T div int (length x) + 1 < 0" by linarith
  then show ?thesis
    using assms T0 c_trunc_quotient [of "length x" T]
    by (simp add: pad_def np_repeat_def slice_to_def Let_def del: of_int_of_nat_eq)
qed

lemma repeat_covers:
  assumes "0 < L" "int L < T"
  shows "nat T \<le> nat (T div int L + 1) * L"
proof -
  have "T mod int L < int L" using assms(1) by simp
  moreover have "int L * (T div int L) + T mod int L = T"
    by (rule mult_div_mod_eq)
  ultimately have "T < int L * (T div int L) + int L"
    by linarith
  then have lt: "T < (T div int L + 1) * int L"
    by (simp add: algebra_simps)
  have nonneg: "0 \<le> T div int L + 1"
    using assms by (simp add: pos_imp_zdiv_nonneg_iff add_nonneg_nonneg)
  have "int (nat (T div int L + 1) * L) = (T div int L + 1) * int L"
    using nonneg by simp
  then have "int (nat T) \<le> int (nat (T div int L + 1) * L)"
    using lt assms by simp
  then show ?thesis by linarith
qed

text \<open>
  Claim C1, as the specification states it: for \<open>0 < L < target_length\<close> the output is
  the element-wise repetition with factor \<open>ceil(target_length / L) + 1\<close>, cut to
  \<open>target_length\<close>. This fails on the code: with three samples and a target of four the
  code repeats each sample twice, the specified factor is three.
\<close>

theorem pad_ceil_factor_counterexample:
  "pad [1, 2, 3 :: int] 4 = Inr [1, 1, 2, 2] \<and>
   pad_as_specified [1, 2, 3 :: int] 4 = [1, 1, 1, 2] \<and>
   pad [1, 2, 3 :: int] 4 \<noteq> Inr (pad_as_specified [1, 2, 3 :: int] 4)"
proof -
  have c: "\<lceil>(4 / 3 :: rat)\<rceil> = 2"
    by (rule ceiling_unique) simp_all
  show ?thesis
    by (simp add: pad_short pad_as_specified_def c numeral_2_eq_2 numeral_3_eq_3)
qed

text \<open>
  Claim C1, amended: for every waveform of length \<open>L\<close> with \<open>0 < L < target_length\<close>,
  \<open>pad\<close> returns the element-wise repetition with the integer factor
  \<open>floor(target_length / L) + 1\<close> (each sample duplicated that many consecutive times),
  cut to \<open>target_length\<close>: the output has length exactly \<open>target_length\<close>, its sample at
  position \<open>i\<close> is the input sample at position \<open>i div factor\<close>, and every output
  sample occurs in the input.
\<close>

theorem pad_short_repeats:
  assumes "0 < length x" and "int (length x) < target_length"
  shows "\<exists>y. pad x target_length = Inr y \<and>
             y = take (nat target_length)
                   (concat (map (replicate (nat (target_length div int (length x) + 1))) x)) \<and>
             length y = nat target_length \<and>
             (\<forall>i < nat target_length. y ! i = x ! (i div nat (target_length div int (length x) + 1))) \<and>
             set y \<subseteq> set x"
proof -
  define k where "k = nat (target_length div int (length x) + 1)"
  define y where "y = take (nat target_length) (concat (map (replicate k) x))"
  have cover: "nat target_length \<le> k * length x"
    unfolding k_def using assms by (rule repeat_covers)
  have "pad x target_length = Inr y"
    unfolding y_def k_def using assms by (rule pad_short)
  moreover have "length y = nat target_length"
    using cover by (simp add: y_def length_repeat)
  moreover have "\<forall>i < nat target_length. y ! i = x ! (i div k)"
    using cover by (simp add: y_def nth_repeat)
  moreover have "set y \<subseteq> set x"
    unfolding y_def using set_take_subset set_repeat by fast
  ultimately show ?thesis
    unfolding y_def k_def by blast
qed

theorem pad_short_repeats_witness:
  "0 < length [1, 2, 3 :: int] \<and> int (length [1, 2, 3 :: int]) < 4 \<and>
   (\<exists>y. pad [1, 2, 3 :: int] 4 = Inr y \<and> y = [1, 1, 2, 2] \<and> length y = 4 \<and>
        set y \<subseteq> {1, 2, 3})"
  using pad_short_repeats [of "[1, 2, 3 :: int]" 4]
  by (simp add: numeral_2_eq_2)

text \<open>
  Claim C3, as the specification states it: a zero-length waveform makes \<open>pad\<close> fail
  with an explicit empty-input error instead of dividing by zero. On the code the
  failure of the empty waveform at the default target length is the division by zero
  itself.
\<close>

theorem pad_empty_counterexample:
  "pad ([] :: int list) 64000 = Inl ZeroDivisionError"
  by (simp add: pad_def)

text \<open>
  Claim C3, amended: for a zero-length waveform and a positive target length, \<open>pad\<close>
  returns no waveform; it fails with the ZeroDivisionError of \<^verbatim>\<open>max_len / x_len\<close>.
\<close>

theorem pad_empty_zero_division:
  "0 < target_length \<Longrightarrow> pad [] target_length = Inl ZeroDivisionError"
  by (simp add: pad_def)

theorem pad_empty_zero_division_witness:
  "(0::int) < 1 \<and> pad ([] :: int list) 1 = Inl ZeroDivisionError"
  using pad_empty_zero_division [of 1, where ?'a = int]
  by simp

text \<open>
  Claim C8: for every waveform whose length is at least \<open>target_length\<close>, \<open>pad\<close>
  returns exactly the first \<open>target_length\<close> samples of the input.
\<close>

theorem pad_long_prefix:
  assumes "0 \<le> target_length" and "target_length \<le> int (length x)"
  shows "pad x target_length = Inr (take (nat target_length) x)"
  using assms by (simp add: pad_def slice_to_def)

theorem pad_long_prefix_witness:
  "(0::int) \<le> 3 \<and> 3 \<le> int (length [5, 6, 7, 8, 9 :: int]) \<and>
   pad [5, 6, 7, 8, 9 :: int] 3 = Inr [5, 6, 7]"
  using pad_long_prefix [of 3 "[5, 6, 7, 8, 9 :: int]"]
  by simp

section \<open>Properties of the run\<close>


lemma and_then_Inr: "m s = (Inr v, s') \<Longrightarrow> and_then m f s = f v s'"
  by (simp add: and_then_def)

lemma and_then_Inl: "m s = (Inl e, s') \<Longrightarrow> and_then m f s = (Inl e, s')"
  by (simp add: and_then_def)

lemma growsD: "grows m \<Longrightarrow> m s = (r, s') \<Longrightarrow> set (fs s) \<subseteq> set (fs s')"
  unfolding grows_def by blast

lemma grows_ret: "grows (ret v)"
  by (simp add: grows_def ret_def)

lemma grows_raise: "grows (raise e)"
  by (simp add: grows_def raise_def)

lemma grows_and_then: "grows m \<Longrightarrow> (\<And>v. grows (f v)) \<Longrightarrow> grows (and_then m f)"
  unfolding grows_def and_then_def
  by (auto split: prod.splits sum.splits) blast+

lemma grows_external: "grows (external en c)"
  by (simp add: external_def grows_ret grows_raise)

lemma grows_py_assert: "grows (py_assert b msg)"
  by (simp add: py_assert_def grows_ret grows_raise)

lemma grows_print: "grows (print x)"
  by (simp add: grows_def print_def)

lemma grows_create: "grows (create p)"
  by (auto simp: grows_def create_def)

lemma grows_os_mkdir: "grows (os_mkdir en p)"
  unfolding grows_def os_mkdir_def
  using growsD [OF grows_and_then [OF grows_external, of "\<lambda>_. create p", OF grows_create]]
  by (auto simp: raise_def)

lemma grows_get_logger: "grows (get_logger en d)"
  unfolding grows_def get_logger_def
  using growsD [OF grows_and_then [OF grows_external, of "\<lambda>_. create (d @ ''/logger.log'')", OF grows_create]]
  by (auto simp: raise_def)

lemma grows_build: "grows (build a en)"
  unfolding build_def
  by (intro grows_and_then grows_print grows_external)
     (auto split: option.splits simp: grows_raise grows_external grows_ret grows_print intro!: grows_and_then)

lemma grows_eval_mode: "grows (eval_mode a en)"
  unfolding eval_mode_def
  by (auto split: option.splits simp: grows_raise grows_external grows_ret grows_print grows_create grows_py_assert intro!: grows_and_then)

lemma grows_train_setup: "grows (train_setup a en)"
  unfolding train_setup_def
  by (intro grows_and_then grows_external grows_create grows_get_logger)

lemma grows_epoch_body: "grows (epoch_body a en k)"
  unfolding epoch_body_def
  by (intro grows_and_then grows_external grows_create)

lemma grows_epochs: "grows (epochs a en ks)"
  by (induction ks) (auto intro!: grows_and_then grows_epoch_body simp: grows_ret)


lemma build_fs: "build a en s = (r, s') \<Longrightarrow> fs s' = fs s"
  by (auto simp: build_def and_then_def print_def external_def ret_def raise_def
           split: if_splits option.splits prod.splits sum.splits)

lemma build_NameError:
  "select_model_cls (model_name a) = None \<Longrightarrow>
   build a en s = (r, s') \<Longrightarrow> r = Inl (External DevSet) \<or> r = Inl (External DevLoader) \<or> r = Inl (NameError ''model_cls'')"
  by (auto simp: build_def and_then_def print_def external_def ret_def raise_def
           split: if_splits option.splits prod.splits sum.splits)

lemma build_reaches_NameError:
  "select_model_cls (model_name a) = None \<Longrightarrow> \<not> raises en DevSet \<Longrightarrow> \<not> raises en DevLoader \<Longrightarrow>
   fst (build a en s) = Inl (NameError ''model_cls'')"
  by (auto simp: build_def and_then_def print_def external_def ret_def raise_def
           split: if_splits option.splits prod.splits sum.splits)

lemma prepare_ok:
  "prepare a en s = (Inr (), s1) \<Longrightarrow>
     model_save_path a \<in> set (fs s1) \<and>
     features a \<in> set supported_features \<and>
     track a \<in> set tracks \<and>
     set (fs s1) = set (fs s) \<union> {''models'', model_save_path a}"
  by (auto simp: prepare_def and_then_def os_mkdir_def os_path_exists_def create_def
                 py_assert_def external_def ret_def raise_def
           split: if_splits prod.splits sum.splits)

lemma prepare_invalid:
  assumes "features a \<notin> set supported_features \<or> track a \<notin> set tracks"
  shows "\<exists>e s1. prepare a en s = (Inl e, s1) \<and> set (fs s1) \<subseteq> insert ''models'' (set (fs s)) \<and>
           (e = External (Mkdir ''models'') \<or>
            e = AssertionError (if features a \<in> set supported_features
                                then ''Invalid track given'' else ''Not supported feature''))"
  using assms
  by (auto simp: prepare_def and_then_def os_mkdir_def os_path_exists_def create_def
                 py_assert_def external_def ret_def raise_def
           split: if_splits prod.splits sum.splits)

lemma prepare_reaches:
  assumes "features a \<in> set supported_features" "track a \<in> set tracks"
    and "\<not> raises en (Mkdir ''models'')" "\<not> raises en (Mkdir (model_save_path a))"
  shows "fst (prepare a en s) = Inr ()"
  using assms
  by (auto simp: prepare_def and_then_def os_mkdir_def os_path_exists_def create_def
                 py_assert_def external_def ret_def raise_def
           split: if_splits prod.splits sum.splits)

lemma prepare_error_cases:
  "prepare a en s = (Inl e, s1) \<Longrightarrow>
     e = External (Mkdir ''models'') \<or> e = External (Mkdir (model_save_path a)) \<or>
     e = AssertionError ''Not supported feature'' \<or> e = AssertionError ''Invalid track given''"
  by (auto simp: prepare_def and_then_def os_mkdir_def os_path_exists_def create_def
                 py_assert_def external_def ret_def raise_def
           split: if_splits prod.splits sum.splits)

lemma eval_mode_fails:
  assumes "eval a" "eval_output a = None \<or> model_path a = None"
  shows "\<exists>m. eval_mode a en s = (Inl (AssertionError m), s) \<and>
             m = (if eval_output a = None then ''You must provide an output path''
                  else ''You must provide model checkpoint'')"
  using assms
  by (auto simp: eval_mode_def and_then_def py_assert_def ret_def raise_def)

lemma train_setup_ok:
  "train_setup a en s = (Inr (), s') \<Longrightarrow> log_path a \<in> set (fs s')"
  by (auto simp: train_setup_def and_then_def get_logger_def os_path_exists_def create_def
                 external_def ret_def raise_def
           split: if_splits prod.splits sum.splits)


lemma prepare_bound:
  "prepare a en s = (r, s1) \<Longrightarrow> set (fs s1) \<subseteq> set (fs s) \<union> {''models'', model_save_path a}"
  by (auto simp: prepare_def and_then_def os_mkdir_def os_path_exists_def create_def
                 py_assert_def external_def ret_def raise_def
           split: if_splits prod.splits sum.splits)

lemma before_training_ok:
  assumes "before_training a en s0 = (Inr (), s1)"
  shows "model_save_path a \<in> set (fs s1) \<and> log_path a \<in> set (fs s1)"
proof -
  from assms obtain sa sb sc where
    p: "prepare a en s0 = (Inr (), sa)" and b: "build a en sa = (Inr (), sb)" and
    e: "eval_mode a en sb = (Inr (), sc)" and t: "train_setup a en sc = (Inr (), s1)"
    by (auto simp: before_training_def and_then_def split: prod.splits sum.splits)
  have "model_save_path a \<in> set (fs sa)" using prepare_ok [OF p] by simp
  then have "model_save_path a \<in> set (fs sb)" using build_fs [OF b] by simp
  then have "model_save_path a \<in> set (fs sc)" using growsD [OF grows_eval_mode e] by blast
  then have "model_save_path a \<in> set (fs s1)" using growsD [OF grows_train_setup t] by blast
  then show ?thesis using train_setup_ok [OF t] by simp
qed

lemma epochs_raise:
  "k \<in> set ks \<Longrightarrow> raises en (Epoch k) \<Longrightarrow> \<exists>e s'. epochs a en ks s = (Inl e, s')"
proof (induction ks arbitrary: s)
  case Nil
  then show ?case by simp
next
  case (Cons j ks)
  show ?case
  proof (cases "raises en (Epoch j)")
    case True
    then show ?thesis
      by (simp add: epoch_body_def and_then_def external_def raise_def)
  next
    case False
    then have "k \<in> set ks" using Cons.prems by auto
    then show ?thesis
      using Cons.IH Cons.prems(2) False
      by (simp add: epoch_body_def and_then_def external_def ret_def create_def)
  qed
qed

lemma logs_not_models: "\<not> under (log_path a) (model_save_path a)"
  by (simp add: under_def log_path_def model_save_path_def)

lemma cleanup_ok:
  assumes "log_path a \<in> set (fs s)" "model_save_path a \<in> set (fs s)"
  shows "cleanup a s =
           (Inr (), s\<lparr>stdout := stdout s @ [Text ''Error and Exit''],
                      fs := filter (\<lambda>q. \<not> under (model_save_path a) q)
                              (filter (\<lambda>q. \<not> under (log_path a) q) (fs s))\<rparr>)"
  using assms logs_not_models [of a]
  by (simp add: cleanup_def and_then_def print_def shutil_rmtree_def os_path_exists_def)

text \<open>
  Claim C2, amended: when an epoch of the training loop raises, the handler prints
  ``Error and Exit'', deletes the run's log directory and the run's model directory with
  everything below them, and the script then ends normally; the exception is swallowed
  and the exit status is 0.
\<close>

theorem training_failure_cleanup:
  assumes "before_training a en s0 = (Inr (), s1)"
    and "k < nat (num_epochs a)" and "raises en (Epoch k)"
  shows "\<exists>s2. main a en s0 = (Inr (), s2) \<and>
              (\<forall>q \<in> set (fs s2). \<not> under (log_path a) q \<and> \<not> under (model_save_path a) q) \<and>
              last (stdout s2) = Text ''Error and Exit'' \<and>
              exit_status (fst (main a en s0)) = 0"
proof -
  have "k \<in> set [0 ..< nat (num_epochs a)]" using assms(2) by simp
  then obtain e s' where ep: "epochs a en [0 ..< nat (num_epochs a)] s1 = (Inl e, s')"
    using epochs_raise assms(3) by blast
  have sub: "set (fs s1) \<subseteq> set (fs s')"
    using growsD [OF grows_epochs ep] .
  have dirs: "log_path a \<in> set (fs s')" "model_save_path a \<in> set (fs s')"
    using before_training_ok [OF assms(1)] sub by auto
  define s2 where "s2 = s'\<lparr>stdout := stdout s' @ [Text ''Error and Exit''],
                      fs := filter (\<lambda>q. \<not> under (model_save_path a) q)
                              (filter (\<lambda>q. \<not> under (log_path a) q) (fs s'))\<rparr>"
  have "main a en s0 = training a en s1"
    using assms(1) by (simp add: main_def and_then_def)
  also have "\<dots> = cleanup a s'"
    using ep by (simp add: training_def try_except_def)
  also have "\<dots> = (Inr (), s2)"
    unfolding s2_def using dirs by (rule cleanup_ok)
  finally have m: "main a en s0 = (Inr (), s2)" .
  moreover have "\<forall>q \<in> set (fs s2). \<not> under (log_path a) q \<and> \<not> under (model_save_path a) q"
    by (simp add: s2_def)
  moreover have "last (stdout s2) = Text ''Error and Exit''"
    by (simp add: s2_def)
  moreover have "exit_status (fst (main a en s0)) = 0"
    using m by (simp add: exit_status_def)
  ultimately show ?thesis by blast
qed

text \<open>
  Claim C2, as the specification states it: after the cleanup the process exits with a
  failure indication. On the code a run whose second epoch raises ends like a
  successful one, with status 0.
\<close>

theorem training_failure_exit_status_counterexample:
  "fst (main (default_args\<lparr>num_epochs := 3\<rparr>) (failing_epoch_env 1) fresh) = Inr () \<and>
   exit_status (fst (main (default_args\<lparr>num_epochs := 3\<rparr>) (failing_epoch_env 1) fresh)) = 0"
  by code_simp

theorem training_failure_cleanup_witness:
  "\<exists>s2. main (default_args\<lparr>num_epochs := 3\<rparr>) (failing_epoch_env 1) fresh = (Inr (), s2) \<and>
        fs s2 = [''models'', ''logs''] \<and>
        last (stdout s2) = Text ''Error and Exit''"
proof -
  let ?a = "default_args\<lparr>num_epochs := 3\<rparr>"
  have h1: "before_training ?a (failing_epoch_env 1) fresh =
      (Inr (), \<lparr>fs = [''models'', ''models/model_physical_spect_resnet18_3_30_0.0001'',
         ''logs'', ''logs/model_physical_spect_resnet18_3_30_0.0001'',
         ''logs/model_physical_spect_resnet18_3_30_0.0001/logger.log''],
         stdout = [Text ''cpu'', Namespace ?a]\<rparr>)"
    by code_simp
  have h2: "(1::nat) < nat (num_epochs ?a)" by (simp add: default_args_def)
  have h3: "raises (failing_epoch_env 1) (Epoch 1)" by (simp add: failing_epoch_env_def)
  have v: "fs (snd (main ?a (failing_epoch_env 1) fresh)) = [''models'', ''logs'']"
    by code_simp
  from training_failure_cleanup [OF h1 h2 h3] v show ?thesis
    by auto
qed


lemma eval_mode_fs_on_error:
  "eval_mode a en s = (Inl (AssertionError m), s') \<Longrightarrow> s' = s"
  by (auto simp: eval_mode_def and_then_def py_assert_def external_def ret_def raise_def
                 create_def print_def
           split: if_splits option.splits prod.splits sum.splits)

lemma main_prepare_fails:
  "prepare a en s = (Inl e, s1) \<Longrightarrow> main a en s = (Inl e, s1)"
  by (simp add: main_def before_training_def and_then_def)

lemma main_build_fails:
  "prepare a en s = (Inr (), s1) \<Longrightarrow> build a en s1 = (Inl e, s2) \<Longrightarrow> main a en s = (Inl e, s2)"
  by (simp add: main_def before_training_def and_then_def)

lemma main_eval_fails:
  "prepare a en s = (Inr (), s1) \<Longrightarrow> build a en s1 = (Inr (), s2) \<Longrightarrow>
   eval_mode a en s2 = (Inl e, s3) \<Longrightarrow> main a en s = (Inl e, s3)"
  by (simp add: main_def before_training_def and_then_def)

lemma build_no_assert: "build a en s = (Inl e, s') \<Longrightarrow> e \<noteq> AssertionError m"
  by (auto simp: build_def and_then_def print_def external_def ret_def raise_def
           split: if_splits option.splits prod.splits sum.splits)

lemma build_reaches:
  assumes "select_model_cls (model_name a) \<noteq> None"
    and "\<not> raises en DevSet" "\<not> raises en DevLoader" "\<not> raises en ModelCtor" "\<not> raises en LoadState"
  shows "fst (build a en s) = Inr ()"
  using assms
  by (auto simp: build_def and_then_def print_def external_def ret_def raise_def
           split: if_splits option.splits prod.splits sum.splits)

lemma prepare_assert_invalid:
  "prepare a en s = (Inl (AssertionError m), s1) \<Longrightarrow>
     \<not> (features a \<in> set supported_features \<and> track a \<in> set tracks)"
  by (auto simp: prepare_def and_then_def os_mkdir_def os_path_exists_def create_def
                 py_assert_def external_def ret_def raise_def
           split: if_splits prod.splits sum.splits)

text \<open>
  Claim C4, amended: an invalid \<^verbatim>\<open>--features\<close> or \<^verbatim>\<open>--track\<close> value makes the program
  fail before any run directory is created (at most \<^verbatim>\<open>models\<close> itself is new); a
  missing \<^verbatim>\<open>--eval_output\<close> or \<^verbatim>\<open>--model_path\<close> under \<^verbatim>\<open>--eval\<close> makes it fail too,
  but its assertion is reached only after the run's model directory exists (the run's
  log directory is not created on that path).
\<close>

theorem configuration_errors:
  "(features a \<notin> set supported_features \<or> track a \<notin> set tracks \<longrightarrow>
      (\<exists>e s'. main a en s = (Inl e, s') \<and>
         set (fs s') \<subseteq> insert ''models'' (set (fs s)) \<and>
         (e = External (Mkdir ''models'') \<or>
          e = AssertionError (if features a \<in> set supported_features
                              then ''Invalid track given'' else ''Not supported feature'')))) \<and>
   (features a \<in> set supported_features \<and> track a \<in> set tracks \<and>
    eval a \<and> (eval_output a = None \<or> model_path a = None) \<longrightarrow>
      (\<exists>e s'. main a en s = (Inl e, s') \<and>
         set (fs s') \<subseteq> set (fs s) \<union> {''models'', model_save_path a} \<and>
         ((\<exists>m. e = AssertionError m) \<longrightarrow>
            e = AssertionError (if eval_output a = None then ''You must provide an output path''
                                else ''You must provide model checkpoint'') \<and>
            model_save_path a \<in> set (fs s')) \<and>
         (\<not> raises en (Mkdir ''models'') \<and> \<not> raises en (Mkdir (model_save_path a)) \<and>
          \<not> raises en DevSet \<and> \<not> raises en DevLoader \<and> \<not> raises en ModelCtor \<and>
          \<not> raises en LoadState \<and> select_model_cls (model_name a) \<noteq> None \<longrightarrow>
            (\<exists>m. e = AssertionError m))))"
proof (intro conjI impI)
  assume "features a \<notin> set supported_features \<or> track a \<notin> set tracks"
  from prepare_invalid [OF this, of en s] obtain e s1 where
    p: "prepare a en s = (Inl e, s1)" and
    rest: "set (fs s1) \<subseteq> insert ''models'' (set (fs s))"
      "e = External (Mkdir ''models'') \<or>
       e = AssertionError (if features a \<in> set supported_features
                           then ''Invalid track given'' else ''Not supported feature'')"
    by blast
  show "\<exists>e s'. main a en s = (Inl e, s') \<and>
         set (fs s') \<subseteq> insert ''models'' (set (fs s)) \<and>
         (e = External (Mkdir ''models'') \<or>
          e = AssertionError (if features a \<in> set supported_features
                              then ''Invalid track given'' else ''Not supported feature''))"
    using main_prepare_fails [OF p] rest by blast
next
  let ?msg = "if eval_output a = None then ''You must provide an output path''
              else ''You must provide model checkpoint''"
  let ?quiet = "\<not> raises en (Mkdir ''models'') \<and> \<not> raises en (Mkdir (model_save_path a)) \<and>
          \<not> raises en DevSet \<and> \<not> raises en DevLoader \<and> \<not> raises en ModelCtor \<and>
          \<not> raises en LoadState \<and> select_model_cls (model_name a) \<noteq> None"
  assume h: "features a \<in> set supported_features \<and> track a \<in> set tracks \<and>
    eval a \<and> (eval_output a = None \<or> model_path a = None)"
  obtain r1 s1 where p: "prepare a en s = (r1, s1)" by (cases "prepare a en s")
  note b1 = prepare_bound [OF p]
  show "\<exists>e s'. main a en s = (Inl e, s') \<and>
         set (fs s') \<subseteq> set (fs s) \<union> {''models'', model_save_path a} \<and>
         ((\<exists>m. e = AssertionError m) \<longrightarrow> e = AssertionError ?msg \<and> model_save_path a \<in> set (fs s')) \<and>
         (?quiet \<longrightarrow> (\<exists>m. e = AssertionError m))"
  proof (cases r1)
    case (Inl e)
    then have pe: "prepare a en s = (Inl e, s1)" using p by simp
    have "\<not> (\<exists>m. e = AssertionError m)"
      using prepare_assert_invalid [of a en s _ s1] h pe by blast
    moreover have "\<not> ?quiet"
      using prepare_reaches [of a en s] h pe by auto
    ultimately show ?thesis
      using main_prepare_fails [OF pe] b1 by blast
  next
    case (Inr u)
    then have pk: "prepare a en s = (Inr (), s1)" using p by simp
    have in1: "model_save_path a \<in> set (fs s1)" using prepare_ok [OF pk] by simp
    obtain r2 s2 where b: "build a en s1 = (r2, s2)" by (cases "build a en s1")
    have f2: "fs s2 = fs s1" using build_fs [OF b] .
    show ?thesis
    proof (cases r2)
      case (Inl e)
      then have be: "build a en s1 = (Inl e, s2)" using b by simp
      have "\<not> (\<exists>m. e = AssertionError m)" using build_no_assert [OF be] by blast
      moreover have "\<not> ?quiet" using build_reaches [of a en s1] be by auto
      ultimately show ?thesis
        using main_build_fails [OF pk be] b1 f2 by auto
    next
      case (Inr u')
      then have bk: "build a en s1 = (Inr (), s2)" using b by simp
      from eval_mode_fails [of a en s2] h
      have ev: "eval_mode a en s2 = (Inl (AssertionError ?msg), s2)" by auto
      show ?thesis
        using main_eval_fails [OF pk bk ev] b1 f2 in1 by auto
    qed
  qed
qed

text \<open>
  Claim C4, as the specification states it: every configuration error fails before any
  run directory is created. With \<^verbatim>\<open>--eval\<close> and no output path the assertion fails
  after the run's model directory has been made.
\<close>

theorem configuration_errors_counterexample:
  "fst (main (default_args\<lparr>eval := True, num_epochs := 2\<rparr>) quiet_env fresh) =
     Inl (AssertionError ''You must provide an output path'') \<and>
   fs (snd (main (default_args\<lparr>eval := True, num_epochs := 2\<rparr>) quiet_env fresh)) =
     [''models'', ''models/model_physical_spect_resnet18_2_30_0.0001'']"
  by code_simp


theorem configuration_errors_witness:
  "(\<exists>s'. main (default_args\<lparr>features := ''lfcc'', num_epochs := 2\<rparr>) quiet_env fresh =
            (Inl (AssertionError ''Not supported feature''), s') \<and> fs s' = [''models'']) \<and>
   (\<exists>s'. main (default_args\<lparr>eval := True, eval_output := Some ''scores.txt'', num_epochs := 2\<rparr>)
             quiet_env fresh =
            (Inl (AssertionError ''You must provide model checkpoint''), s') \<and>
         model_save_path (default_args\<lparr>eval := True, eval_output := Some ''scores.txt'', num_epochs := 2\<rparr>)
           \<in> set (fs s'))"
proof -
  let ?a1 = "default_args\<lparr>features := ''lfcc'', num_epochs := 2\<rparr>"
  let ?a2 = "default_args\<lparr>eval := True, eval_output := Some ''scores.txt'', num_epochs := 2\<rparr>"
  have v1: "main ?a1 quiet_env fresh =
      (Inl (AssertionError ''Not supported feature''), \<lparr>fs = [''models''], stdout = []\<rparr>)"
    by code_simp
  have h2: "features ?a2 \<in> set supported_features \<and> track ?a2 \<in> set tracks \<and> eval ?a2 \<and>
            (eval_output ?a2 = None \<or> model_path ?a2 = None)"
    by (simp add: default_args_def supported_features_def tracks_def)
  have q2: "\<not> raises quiet_env (Mkdir ''models'') \<and> \<not> raises quiet_env (Mkdir (model_save_path ?a2)) \<and>
          \<not> raises quiet_env DevSet \<and> \<not> raises quiet_env DevLoader \<and> \<not> raises quiet_env ModelCtor \<and>
          \<not> raises quiet_env LoadState \<and> select_model_cls (model_name ?a2) \<noteq> None"
    by (simp add: quiet_env_def default_args_def select_model_cls_def)
  have m2: "eval_output ?a2 \<noteq> None" by simp
  from configuration_errors [of ?a2 quiet_env fresh] h2 q2 m2
  have "\<exists>s'. main ?a2 quiet_env fresh = (Inl (AssertionError ''You must provide model checkpoint''), s') \<and>
         model_save_path ?a2 \<in> set (fs s')"
    by (simp del: set_simps) blast
  with v1 configuration_errors [of ?a1 quiet_env fresh] show ?thesis by simp
qed

lemma select_model_cls_None: "select_model_cls name = None \<longleftrightarrow> name \<notin> set model_names"
  by (simp add: select_model_cls_def model_names_def)

text \<open>
  Claim C10: for a model name outside the seven recognised ones the model class is
  never assigned; the run always fails, never by calling a constructor; a run that gets
  as far as the construction (valid features and track, directories and validation data
  in place) fails there with the undefined name; and whenever it fails so, the run's
  model directory already exists.
\<close>

theorem unknown_model_name:
  assumes "model_name a \<notin> set model_names"
  shows "select_model_cls (model_name a) = None \<and>
         (\<exists>e s'. main a en s = (Inl e, s') \<and> e \<noteq> External ModelCtor \<and>
            (e = NameError ''model_cls'' \<longrightarrow> model_save_path a \<in> set (fs s')) \<and>
            (features a \<in> set supported_features \<and> track a \<in> set tracks \<and>
             \<not> raises en (Mkdir ''models'') \<and> \<not> raises en (Mkdir (model_save_path a)) \<and>
             \<not> raises en DevSet \<and> \<not> raises en DevLoader \<longrightarrow> e = NameError ''model_cls''))"
proof -
  let ?reach = "features a \<in> set supported_features \<and> track a \<in> set tracks \<and>
             \<not> raises en (Mkdir ''models'') \<and> \<not> raises en (Mkdir (model_save_path a)) \<and>
             \<not> raises en DevSet \<and> \<not> raises en DevLoader"
  have none: "select_model_cls (model_name a) = None"
    using assms by (simp add: select_model_cls_None)
  obtain r1 s1 where p: "prepare a en s = (r1, s1)" by (cases "prepare a en s")
  have "\<exists>e s'. main a en s = (Inl e, s') \<and> e \<noteq> External ModelCtor \<and>
            (e = NameError ''model_cls'' \<longrightarrow> model_save_path a \<in> set (fs s')) \<and>
            (?reach \<longrightarrow> e = NameError ''model_cls'')"
  proof (cases r1)
    case (Inl e)
    then have pe: "prepare a en s = (Inl e, s1)" using p by simp
    have "e \<noteq> External ModelCtor" "e \<noteq> NameError ''model_cls''"
      using prepare_error_cases [OF pe] by auto
    moreover have "\<not> ?reach"
      using prepare_reaches [of a en s] pe by auto
    ultimately show ?thesis
      using main_prepare_fails [OF pe] by blast
  next
    case (Inr u)
    then have pk: "prepare a en s = (Inr (), s1)" using p by simp
    have in1: "model_save_path a \<in> set (fs s1)" using prepare_ok [OF pk] by simp
    obtain r2 s2 where b: "build a en s1 = (r2, s2)" by (cases "build a en s1")
    have f2: "fs s2 = fs s1" using build_fs [OF b] .
    from build_NameError [OF none b] obtain e where
      r2: "r2 = Inl e" and
      e: "e = External DevSet \<or> e = External DevLoader \<or> e = NameError ''model_cls''"
      by blast
    have "?reach \<longrightarrow> e = NameError ''model_cls''"
      using build_reaches_NameError [OF none, of en s1] b r2 by auto
    moreover have "e \<noteq> External ModelCtor" using e by auto
    moreover have "main a en s = (Inl e, s2)"
      using main_build_fails [OF pk] b r2 by simp
    moreover have "model_save_path a \<in> set (fs s2)" using in1 f2 by simp
    ultimately show ?thesis by blast
  qed
  with none show ?thesis by blast
qed

theorem unknown_model_name_witness:
  "model_name (default_args\<lparr>model_name := ''lcnn'', num_epochs := 2\<rparr>) \<notin> set model_names \<and>
   main (default_args\<lparr>model_name := ''lcnn'', num_epochs := 2\<rparr>) quiet_env fresh =
     (Inl (NameError ''model_cls''),
      \<lparr>fs = [''models'', ''models/model_physical_spect_lcnn_2_30_0.0001''], stdout = [Text ''cpu'']\<rparr>)"
proof -
  let ?a = "default_args\<lparr>model_name := ''lcnn'', num_epochs := 2\<rparr>"
  have h: "model_name ?a \<notin> set model_names"
    by (simp add: model_names_def)
  have v: "main ?a quiet_env fresh =
     (Inl (NameError ''model_cls''),
      \<lparr>fs = [''models'', ''models/model_physical_spect_lcnn_2_30_0.0001''], stdout = [Text ''cpu'']\<rparr>)"
    by code_simp
  from unknown_model_name [OF h, of quiet_env fresh] h v show ?thesis
    by simp
qed


section \<open>Properties of the score file and of the MFCC features\<close>


lemma concat_DataLoader: "0 < n \<Longrightarrow> concat (DataLoader n xs) = xs"
proof (induction n xs rule: DataLoader.induct)
  case (1 n xs)
  show ?case
  proof (cases "xs = []")
    case True
    then show ?thesis by (subst DataLoader.simps) simp
  next
    case False
    then have "concat (DataLoader n (drop n xs)) = drop n xs"
      using "1.IH" "1.prems" by simp
    then show ?thesis
      using False "1.prems" by (subst DataLoader.simps) simp
  qed
qed

lemma those_map_Some:
  "(\<forall>x \<in> set xs. f x \<noteq> None) \<Longrightarrow> those (map f xs) = Some (map (\<lambda>x. the (f x)) xs)"
  by (induction xs) auto

lemma score_batches_lists:
  assumes "\<forall>b \<in> set bs. \<forall>s \<in> set b. sysid_dict_inv ds (sys_id (snd (snd s))) \<noteq> None"
  shows "score_batches ds model acc bs =
     Inr (acc\<lparr>fname_list := fname_list acc @ map (\<lambda>s. file_name (snd (snd s))) (concat bs),
              key_list := key_list acc @
                map (\<lambda>s. if key (snd (snd s)) = 1 then ''bonafide'' else ''spoof'') (concat bs),
              sys_id_list := sys_id_list acc @
                map (\<lambda>s. the (sysid_dict_inv ds (sys_id (snd (snd s))))) (concat bs),
              score_list := score_list acc @
                map (\<lambda>(out0, out1). out1 - out0) (concat (map (\<lambda>b. model (map fst b)) bs))\<rparr>)"
  using assms
proof (induction bs arbitrary: acc)
  case Nil
  then show ?case by simp
next
  case (Cons b bs)
  have ids: "\<forall>s \<in> set b. sysid_dict_inv ds (sys_id (snd (snd s))) \<noteq> None"
    using Cons.prems by simp
  have th: "those (map (\<lambda>s. sysid_dict_inv ds (sys_id (snd (snd s)))) b) =
            Some (map (\<lambda>s. the (sysid_dict_inv ds (sys_id (snd (snd s))))) b)"
    using ids by (rule those_map_Some)
  have rest: "\<forall>b \<in> set bs. \<forall>s \<in> set b. sysid_dict_inv ds (sys_id (snd (snd s))) \<noteq> None"
    using Cons.prems by simp
  show ?case
    by (simp add: score_batch_def Let_def th Cons.IH [OF rest] comp_def)
qed

lemma zip4_maps:
  "length ys = length xs \<Longrightarrow>
   zip (map f xs) (zip (map g xs) (zip (map h xs) ys)) =
   map (\<lambda>(x, y). (f x, g x, h x, y)) (zip xs ys)"
proof (induction xs arbitrary: ys)
  case Nil
  then show ?case by simp
next
  case (Cons x xs)
  then show ?case by (cases ys) simp_all
qed

lemma length_logits:
  assumes "\<forall>b \<in> set bs. length (model (map fst b)) = length b"
  shows "length (concat (map (\<lambda>b. model (map fst b)) bs)) = length (concat bs)"
  using assms by (induction bs) simp_all

text \<open>
  Claim C5: for a dataset whose system-id indices are all in its table, and a network
  that returns one row of logits per sample of a batch, \<^verbatim>\<open>produce_evaluation_file\<close>
  writes exactly one line per sample, in dataset order, with the score
  \<open>logit[1] - logit[0]\<close>; the line is \<open>filename system_id key score\<close> when the dataset
  is not a blind evaluation set (the key is \<open>bonafide\<close> for label 1 and \<open>spoof\<close>
  otherwise) and \<open>filename score\<close> when it is.
\<close>

theorem score_file_lines:
  assumes rows: "\<forall>batch \<in> set (DataLoader 32 (samples ds)). length (model (map fst batch)) = length batch"
    and ids: "\<forall>s \<in> set (samples ds). sys_id (snd (snd s)) \<in> dom (sysid_dict_inv ds)"
  shows "\<exists>lines. produce_evaluation_file fmt ds model = Inr lines \<and>
           length lines = length (samples ds) \<and>
           (\<forall>i < length (samples ds).
              lines ! i =
                (let m = snd (snd (samples ds ! i));
                     score = snd (logits ds model ! i) - fst (logits ds model ! i)
                 in if dataset_is_eval ds
                    then file_name m @ '' '' @ fmt score @ [CHR 0x0A]
                    else file_name m @ '' '' @ the (sysid_dict_inv ds (sys_id m)) @ '' '' @
                         (if key m = 1 then ''bonafide'' else ''spoof'') @ '' '' @
                         fmt score @ [CHR 0x0A]))"
proof -
  let ?bs = "DataLoader 32 (samples ds)"
  let ?f = "\<lambda>s::'a sample. file_name (snd (snd s))"
  let ?g = "\<lambda>s::'a sample. the (sysid_dict_inv ds (sys_id (snd (snd s))))"
  let ?h = "\<lambda>s::'a sample. if key (snd (snd s)) = 1 then ''bonafide'' else ''spoof''"
  define outs where "outs = concat (map (\<lambda>b. model (map fst b)) ?bs)"
  define scores where "scores = map (\<lambda>(out0, out1). out1 - out0) outs"
  define lines where
    "lines = map (write_line fmt (dataset_is_eval ds))
               (map (\<lambda>(s, y). (?f s, ?g s, ?h s, y)) (zip (samples ds) scores))"
  have lg: "logits ds model = outs"
    by (simp add: logits_def outs_def)
  have cat: "concat ?bs = samples ds"
    by (rule concat_DataLoader) simp
  have len: "length outs = length (samples ds)"
    unfolding outs_def using length_logits [OF rows] cat by simp
  have lens: "length scores = length (samples ds)"
    by (simp add: scores_def len)
  have ids': "\<forall>b \<in> set ?bs. \<forall>s \<in> set b. sysid_dict_inv ds (sys_id (snd (snd s))) \<noteq> None"
  proof (intro ballI)
    fix b s assume "b \<in> set ?bs" "s \<in> set b"
    then have "s \<in> set (concat ?bs)" by auto
    then have "s \<in> set (samples ds)" using cat by simp
    then show "sysid_dict_inv ds (sys_id (snd (snd s))) \<noteq> None" using ids by auto
  qed
  have z: "zip (map ?f (samples ds)) (zip (map ?g (samples ds)) (zip (map ?h (samples ds)) scores)) =
           map (\<lambda>(s, y). (?f s, ?g s, ?h s, y)) (zip (samples ds) scores)"
    using lens by (rule zip4_maps)
  have loop: "score_batches ds model
                \<lparr>fname_list = [], key_list = [], sys_id_list = [], score_list = []\<rparr> ?bs =
              Inr \<lparr>fname_list = map ?f (samples ds), key_list = map ?h (samples ds),
                   sys_id_list = map ?g (samples ds), score_list = scores\<rparr>"
    by (simp add: score_batches_lists [OF ids'] cat scores_def outs_def)
  have res: "produce_evaluation_file fmt ds model = Inr lines"
    unfolding produce_evaluation_file_def loop lines_def
    by (simp only: sum.case lists.simps z)
  have ll: "length lines = length (samples ds)"
    by (simp add: lines_def lens)
  have nth: "\<forall>i < length (samples ds).
              lines ! i =
                (let m = snd (snd (samples ds ! i));
                     score = snd (logits ds model ! i) - fst (logits ds model ! i)
                 in if dataset_is_eval ds
                    then file_name m @ '' '' @ fmt score @ [CHR 0x0A]
                    else file_name m @ '' '' @ the (sysid_dict_inv ds (sys_id m)) @ '' '' @
                         (if key m = 1 then ''bonafide'' else ''spoof'') @ '' '' @
                         fmt score @ [CHR 0x0A])"
    unfolding lg
    by (simp add: lines_def lens len scores_def write_line_def Let_def split_def)
  from res ll nth show ?thesis by blast
qed


theorem score_file_lines_witness:
  "produce_evaluation_file str_int two_samples (map (\<lambda>x. (x, 2 * x + 1))) =
     Inr [''LA_T_1 - bonafide 4'' @ [CHR 0x0A], ''LA_T_2 SS_1 spoof 6'' @ [CHR 0x0A]] \<and>
   (\<exists>lines. produce_evaluation_file str_int two_samples (map (\<lambda>x. (x, 2 * x + 1))) = Inr lines \<and>
      length lines = length (samples two_samples))"
proof -
  let ?model = "map (\<lambda>x::int. (x, 2 * x + 1))"
  have rows: "\<forall>batch \<in> set (DataLoader 32 (samples two_samples)).
                length (?model (map fst batch)) = length batch"
    by simp
  have ids: "\<forall>s \<in> set (samples two_samples). sys_id (snd (snd s)) \<in> dom (sysid_dict_inv two_samples)"
    by (simp add: two_samples_def)
  have v: "produce_evaluation_file str_int two_samples ?model =
     Inr [''LA_T_1 - bonafide 4'' @ [CHR 0x0A], ''LA_T_2 SS_1 spoof 6'' @ [CHR 0x0A]]"
    by code_simp
  from score_file_lines [OF rows ids, of str_int] v show ?thesis
    by blast
qed

text \<open>
  Claim C9: whenever librosa returns the 24 coefficients and their two successive
  deltas in the same shape, \<^verbatim>\<open>compute_mfcc_feats\<close> returns a feature map of exactly 72
  rows: the 24 base coefficients, then their first derivatives, then the second ones.
\<close>

theorem mfcc_feature_rows:
  assumes "feature_mfcc lib x 16000 24 = Inr mfcc" and "length mfcc = 24"
    and "feature_delta lib mfcc = Inr delta" and "length delta = length mfcc" and "ncols delta = ncols mfcc"
    and "feature_delta lib delta = Inr delta2" and "length delta2 = length delta" and "ncols delta2 = ncols delta"
  shows "compute_mfcc_feats lib x = Inr (mfcc @ delta @ delta2) \<and> length (mfcc @ delta @ delta2) = 72"
  using assms by (simp add: compute_mfcc_feats_def np_concatenate_def)

theorem mfcc_feature_rows_witness:
  "\<exists>feats. compute_mfcc_feats toy_librosa [1, 2] = Inr feats \<and> length feats = 72 \<and>
     take 24 feats = map (\<lambda>c. [int c, 2 * int c]) [0 ..< 24]"
proof -
  let ?m = "map (\<lambda>c. map (\<lambda>v. int c * v) [1, 2]) [0 ..< 24]"
  let ?d = "map (map (\<lambda>v. v + 1)) ?m"
  let ?d2 = "map (map (\<lambda>v. v + 1)) ?d"
  have h1: "feature_mfcc toy_librosa [1, 2] 16000 24 = Inr ?m" by (simp add: toy_librosa_def)
  have h2: "length ?m = 24" by simp
  have h3: "feature_delta toy_librosa ?m = Inr ?d" by (simp add: toy_librosa_def)
  have h4: "length ?d = length ?m" by simp
  have nc: "\<And>m::int list list. ncols (map (map (\<lambda>v. v + 1)) m) = ncols m"
    by (simp add: ncols_def split: list.splits)
  have h5: "ncols ?d = ncols ?m" by (rule nc)
  have h6: "feature_delta toy_librosa ?d = Inr ?d2" by (simp add: toy_librosa_def)
  have h7: "length ?d2 = length ?d" by simp
  have h8: "ncols ?d2 = ncols ?d" by (rule nc)
  from mfcc_feature_rows [OF h1 h2 h3 h4 h5 h6 h7 h8]
  have "compute_mfcc_feats toy_librosa [1, 2] = Inr (?m @ ?d @ ?d2)" and "length (?m @ ?d @ ?d2) = 72"
    by blast+
  moreover have "take 24 (?m @ ?d @ ?d2) = map (\<lambda>c. [int c, 2 * int c]) [0 ..< 24]"
    by simp
  ultimately show ?thesis by blast
qed


section \<open>Properties of \<^verbatim>\<open>train_epoch\<close>\<close>


lemma foldl_num_total:
  "num_total (foldl (train_batch T) st bs) = num_total st + real (length (concat bs))"
  by (induction bs arbitrary: st) (simp_all add: train_batch_def Let_def)

lemma foldl_running_loss:
  "running_loss (foldl (train_batch T) st bs) =
     running_loss st +
     sum_list (map (\<lambda>(q, batch).
                 NLLLoss T [1.0, 9.0] (LogSoftmax T (forward T q (map fst batch)))
                   (map (\<lambda>b. fst (snd b)) batch) * real (length batch))
               (zip (params_seq T (params st) (optim st) bs) bs))"
  by (induction bs arbitrary: st) (simp_all add: train_batch_def Let_def)

lemma foldl_num_correct:
  "num_correct (foldl (train_batch T) st bs) =
     num_correct st +
     real (sum_list (map (\<lambda>(q, batch).
                 count_equal (map row_argmax (LogSoftmax T (forward T q (map fst batch))))
                   (map (\<lambda>b. fst (snd b)) batch))
               (zip (params_seq T (params st) (optim st) bs) bs)))"
  by (induction bs arbitrary: st) (simp_all add: train_batch_def Let_def)


lemma train_epoch_no_samples: "concat batches = [] \<Longrightarrow> train_epoch T batches model lr = Inl ZeroDivisionError"
  by (simp add: train_epoch_def Let_def foldl_num_total)

lemma row_argmax_one: "row_argmax (out0, out1) = 1 \<longleftrightarrow> out0 < out1"
  by (simp add: row_argmax_def)

lemma row_argmax_zero: "row_argmax (out0, out1) = 0 \<longleftrightarrow> \<not> out0 < out1"
  by (simp add: row_argmax_def)

lemma count_equal_Nil: "count_equal [] y = 0" "count_equal pred [] = 0"
  by (simp_all add: count_equal_def)

lemma count_equal_Cons:
  "count_equal (p # pred) (t # y) = (if p = t then 1 else 0) + count_equal pred y"
  by (simp add: count_equal_def)

lemma count_equal_le: "count_equal pred y \<le> length y"
proof -
  have "count_equal pred y \<le> length (zip pred y)"
    unfolding count_equal_def by (rule length_filter_le)
  then show ?thesis by simp
qed

lemma count_equal_card:
  "count_equal (map row_argmax rows) (map (\<lambda>b. fst (snd b)) batch) =
     card {i. i < length batch \<and> i < length rows \<and>
              (if fst (rows ! i) < snd (rows ! i) then 1 else 0) = fst (snd (batch ! i))}"
proof -
  let ?z = "zip (map row_argmax rows) (map (\<lambda>b. fst (snd b)) batch)"
  have "count_equal (map row_argmax rows) (map (\<lambda>b. fst (snd b)) batch) =
          card {i. i < length ?z \<and> (\<lambda>(p, t). p = t) (?z ! i)}"
    unfolding count_equal_def by (rule length_filter_conv_card)
  also have "{i. i < length ?z \<and> (\<lambda>(p, t). p = t) (?z ! i)} =
          {i. i < length batch \<and> i < length rows \<and>
              (if fst (rows ! i) < snd (rows ! i) then 1 else 0) = fst (snd (batch ! i))}"
    by (auto simp: row_argmax_def split_def)
  finally show ?thesis .
qed

text \<open>
  Claim C6: every call of \<^verbatim>\<open>train_epoch\<close> starts from an optimizer constructed anew from
  the current parameters and the learning rate (no optimizer state enters or leaves the
  call); the loss of a batch is the negative log-likelihood with the weight vector
  \<open>[1.0, 9.0]\<close> over the log-softmax of the network's output; and, when the loader yields
  at least one sample, the returned pair is the sum over the batches of batch loss times
  batch size divided by the number of samples, and the number of correctly predicted
  samples divided by the number of samples. A sample is correctly predicted when its
  label is the index of the larger of its two log-probabilities (index 0 on a tie).
\<close>

theorem train_epoch_result:
  assumes "concat batches \<noteq> []"
  shows "let ps = params_seq T model (Adam T model lr) batches;
             n = real (length (concat batches));
             rows = (\<lambda>q batch. LogSoftmax T (forward T q (map fst batch)));
             loss = (\<lambda>(q, batch). NLLLoss T [1.0, 9.0] (rows q batch) (map (\<lambda>b. fst (snd b)) batch));
             correct = (\<lambda>(q, batch).
                card {i. i < length batch \<and> i < length (rows q batch) \<and>
                         (if fst (rows q batch ! i) < snd (rows q batch ! i) then 1 else 0) =
                           fst (snd (batch ! i))})
         in \<exists>model'. train_epoch T batches model lr =
              Inr ((sum_list (map (\<lambda>(q, batch). loss (q, batch) * real (length batch)) (zip ps batches)) / n,
                    real (sum_list (map correct (zip ps batches))) / n),
                   model')"
proof -
  let ?st0 = "\<lparr>running_loss = 0, num_correct = 0, num_total = 0, ii = 0,
               params = model, optim = Adam T model lr\<rparr>"
  have n: "num_total (foldl (train_batch T) ?st0 batches) = real (length (concat batches))"
    by (simp add: foldl_num_total)
  have pos: "real (length (concat batches)) \<noteq> 0"
    using assms by simp
  show ?thesis
    unfolding Let_def train_epoch_def n
    using pos by (simp add: foldl_running_loss foldl_num_correct count_equal_card)
qed

theorem train_epoch_result_witness:
  "train_epoch toy_torch
     [[(1, 1, no_meta), (-2, 1, no_meta)], [(2, 0, no_meta), (-3, 0, no_meta)]] 0 (1 / 10000) =
     Inr ((- 4, 1 / 2), 2)"
proof -
  let ?bs = "[[(1::real, 1::int, no_meta), (-2, 1, no_meta)], [(2, 0, no_meta), (-3, 0, no_meta)]]"
  have h: "concat ?bs \<noteq> []" by simp
  have ps: "params_seq toy_torch 0 (Adam toy_torch 0 (1 / 10000)) ?bs = [0, 1]"
    by (simp add: toy_torch_def)
  note counted = train_epoch_result [OF h, of toy_torch 0 "1 / 10000",
      unfolded Let_def count_equal_card [symmetric] ps]
  from counted obtain m where m: "train_epoch toy_torch ?bs 0 (1 / 10000) = Inr ((- 4, 1 / 2), m)"
    by (auto simp: toy_torch_def count_equal_Cons count_equal_Nil row_argmax_def)
  have "snd (projr (train_epoch toy_torch ?bs 0 (1 / 10000))) = 2"
    by (simp add: train_epoch_def train_batch_def toy_torch_def Let_def)
  with m show ?thesis by simp
qed

end
